theory Spec2Isabelle
  imports
    Main
    "HOL-Library.Multiset"
    "HOL-Library.Product_Lexorder"
begin

unbundle bit_operations_syntax

section \<open>Python values\<close>

text \<open>
  The native messaging host exchanges JSON documents, and Python represents them with
  \<open>None\<close>, \<open>bool\<close>, \<open>int\<close>, \<open>str\<close>, \<open>list\<close> and \<open>dict\<close>. A \<open>dict\<close> keeps its
  insertion order, which \<open>get_profiles\<close> relies on, so an object is an association list
  (its keys are distinct in Python). \<open>JNull\<close> is Python's \<open>None\<close>. A \<open>str\<close> is the list of
  the bytes of its UTF-8 encoding; the character classes below are the ASCII ones.
  Floating point numbers do not occur in the model.
\<close>

datatype json =
    JNull
  | JBool bool
  | JInt int
  | JString string
  | JArray "json list"
  | JObject "(string \<times> json) list"

text \<open>The exceptions that no handler of the program catches.\<close>

datatype error = TypeError | AttributeError | KeyError | UnicodeDecodeError

text \<open>Truthiness, as \<open>if x:\<close>, \<open>x or y\<close> and \<open>not x\<close> test it.\<close>

fun truthy :: "json \<Rightarrow> bool" where
  "truthy JNull = False"
| "truthy (JBool b) = b"
| "truthy (JInt i) = (i \<noteq> 0)"
| "truthy (JString s) = (s \<noteq> [])"
| "truthy (JArray xs) = (xs \<noteq> [])"
| "truthy (JObject kvs) = (kvs \<noteq> [])"

text \<open>\<open>x or y\<close>.\<close>

definition py_or :: "json \<Rightarrow> json \<Rightarrow> json" where
  "py_or x y = (if truthy x then x else y)"

text \<open>
  \<open>d.get(k, default)\<close> and \<open>d.get(k)\<close>: only a \<open>dict\<close> has the method, any other value
  raises \<open>AttributeError\<close>.
\<close>

definition py_get_default :: "json \<Rightarrow> string \<Rightarrow> json \<Rightarrow> error + json" where
  "py_get_default d k dflt =
     (case d of
        JObject kvs \<Rightarrow> (case map_of kvs k of None \<Rightarrow> Inr dflt | Some v \<Rightarrow> Inr v)
      | _ \<Rightarrow> Inl AttributeError)"

definition py_get :: "json \<Rightarrow> string \<Rightarrow> error + json" where
  "py_get d k = py_get_default d k JNull"

text \<open>\<open>d[k] = v\<close> on the items of a \<open>dict\<close>: an existing key keeps its place.\<close>

fun dict_set :: "(string \<times> json) list \<Rightarrow> string \<Rightarrow> json \<Rightarrow> (string \<times> json) list" where
  "dict_set [] k v = [(k, v)]"
| "dict_set ((k', v') # kvs) k v =
     (if k' = k then (k, v) # kvs else (k', v') # dict_set kvs k v)"

text \<open>
  \<open>x == y\<close>: \<open>True\<close> and \<open>False\<close> are the integers 1 and 0, lists are compared
  elementwise, and two dicts are equal when they have the same keys with equal values,
  in any order.
\<close>

fun py_eq :: "json \<Rightarrow> json \<Rightarrow> bool" where
  "py_eq JNull y = (y = JNull)"
| "py_eq (JBool a) y =
     (case y of JBool b \<Rightarrow> a = b | JInt j \<Rightarrow> (if a then 1 else 0) = j | _ \<Rightarrow> False)"
| "py_eq (JInt i) y =
     (case y of JBool b \<Rightarrow> i = (if b then 1 else 0) | JInt j \<Rightarrow> i = j | _ \<Rightarrow> False)"
| "py_eq (JString s) y = (y = JString s)"
| "py_eq (JArray xs) y = (case y of JArray ys \<Rightarrow> list_all2 py_eq xs ys | _ \<Rightarrow> False)"
| "py_eq (JObject kvs) y =
     (case y of
        JObject kvs' \<Rightarrow>
          length kvs = length kvs' \<and>
          list_all (\<lambda>kv. case map_of kvs' (fst kv) of
                            None \<Rightarrow> False
                          | Some v' \<Rightarrow> py_eq (snd kv) v') kvs
      | _ \<Rightarrow> False)"

text \<open>
  \<open>bytes.decode("utf-8")\<close> in strict mode accepts exactly the well-formed UTF-8 byte
  sequences: no stray continuation byte, no overlong form, no surrogate, nothing above
  U+10FFFF.
\<close>

definition byte_in :: "char \<Rightarrow> nat \<Rightarrow> nat \<Rightarrow> bool" where
  "byte_in c lo hi = (lo \<le> of_char c \<and> (of_char c :: nat) \<le> hi)"

fun utf8_valid :: "string \<Rightarrow> bool" where
  "utf8_valid [] = True"
| "utf8_valid (a # rest) =
     (if byte_in a 0 127 then utf8_valid rest
      else if byte_in a 194 223 then
        (case rest of b # r \<Rightarrow> byte_in b 128 191 \<and> utf8_valid r | _ \<Rightarrow> False)
      else if byte_in a 224 239 then
        (case rest of
           b # c # r \<Rightarrow>
             byte_in b (if of_char a = (224 :: nat) then 160 else 128)
                       (if of_char a = (237 :: nat) then 159 else 191) \<and>
             byte_in c 128 191 \<and> utf8_valid r
         | _ \<Rightarrow> False)
      else if byte_in a 240 244 then
        (case rest of
           b # c # d # r \<Rightarrow>
             byte_in b (if of_char a = (240 :: nat) then 144 else 128)
                       (if of_char a = (244 :: nat) then 143 else 191) \<and>
             byte_in c 128 191 \<and> byte_in d 128 191 \<and> utf8_valid r
         | _ \<Rightarrow> False)
      else False)"

section \<open>Highlight colour\<close>

text \<open>
  \<open>f"{r:02x}"\<close>: lowercase hexadecimal digits, padded with zeros to two characters; a
  negative number carries its sign.
\<close>

definition hexdigit :: "nat \<Rightarrow> char" where
  "hexdigit n = ''0123456789abcdef'' ! n"

fun hex_nat :: "nat \<Rightarrow> string" where
  "hex_nat n = (if n < 16 then [hexdigit n] else hex_nat (n div 16) @ [hexdigit (n mod 16)])"

declare hex_nat.simps [simp del]

definition format_02x :: "int \<Rightarrow> string" where
  "format_02x r =
     (if r < 0 then CHR ''-'' # hex_nat (nat (- r))
      else replicate (2 - length (hex_nat (nat r))) CHR ''0'' @ hex_nat (nat r))"

text \<open>
  \<open>highlight_color_to_hex\<close>. Python integers are unbounded, so the value is an \<open>int\<close>
  and \<open>&\<close>, \<open>>>\<close> are the bit operations on \<open>int\<close> (two's complement, infinitely many
  sign bits). A \<open>bool\<close> is an integer; every other non-null value makes \<open>&\<close> raise
  \<open>TypeError\<close>.
\<close>

definition color_hex :: "int \<Rightarrow> string" where
  "color_hex v =
     (let unsigned = v AND 0xFFFFFFFF;
          r = (drop_bit 16 unsigned) AND 0xFF;
          g = (drop_bit 8 unsigned) AND 0xFF;
          b = unsigned AND 0xFF
      in CHR ''#'' # format_02x r @ format_02x g @ format_02x b)"

fun highlight_color_to_hex :: "json \<Rightarrow> error + json" where
  "highlight_color_to_hex JNull = Inr JNull"
| "highlight_color_to_hex (JInt v) = Inr (JString (color_hex v))"
| "highlight_color_to_hex (JBool b) = Inr (JString (color_hex (if b then 1 else 0)))"
| "highlight_color_to_hex _ = Inl TypeError"

text \<open>
  The conversion as the interface describes it: mask the value to unsigned 32 bits, take
  the red, green and blue bytes at bits 16 to 23, 8 to 15 and 0 to 7, and write each as
  two lowercase hexadecimal digits.
\<close>

definition hex_byte :: "nat \<Rightarrow> string" where
  "hex_byte n = [hexdigit (n div 16), hexdigit (n mod 16)]"

definition rrggbb :: "int \<Rightarrow> string" where
  "rrggbb v =
     (let u = nat (v mod 2 ^ 32)
      in CHR ''#'' # hex_byte (u div 2 ^ 16 mod 2 ^ 8) @ hex_byte (u div 2 ^ 8 mod 2 ^ 8)
                  @ hex_byte (u mod 2 ^ 8))"

section \<open>Profile ordering\<close>

text \<open>
  \<open>str.split()\<close> cuts a string at runs of whitespace and drops empty pieces.
\<close>

definition is_space :: "char \<Rightarrow> bool" where
  "is_space c = (byte_in c 9 13 \<or> byte_in c 28 32)"

fun split_ws :: "string \<Rightarrow> string \<Rightarrow> string list" where
  "split_ws [] cur = (if cur = [] then [] else [cur])"
| "split_ws (c # cs) cur =
     (if is_space c then (if cur = [] then split_ws cs [] else cur # split_ws cs [])
      else split_ws cs (cur @ [c]))"

definition py_split :: "string \<Rightarrow> string list" where
  "py_split s = split_ws s []"

text \<open>
  \<open>int(s)\<close> for a string without whitespace: an optional sign, then decimal digits, where
  single underscores may stand between digits. \<open>None\<close> is \<open>ValueError\<close>. (The limit that
  recent interpreters put on the number of digits is left out.)
\<close>

definition is_digit :: "char \<Rightarrow> bool" where
  "is_digit c = byte_in c 48 57"

definition digit_val :: "char \<Rightarrow> nat" where
  "digit_val c = of_char c - 48"

fun int_body :: "string \<Rightarrow> nat \<Rightarrow> nat option" where
  "int_body [] acc = Some acc"
| "int_body (c # cs) acc =
     (if is_digit c then int_body cs (10 * acc + digit_val c)
      else if c = CHR ''_'' \<and> cs \<noteq> [] \<and> is_digit (hd cs) then int_body cs acc
      else None)"

definition py_int :: "string \<Rightarrow> int option" where
  "py_int s =
     (let neg = (s \<noteq> [] \<and> hd s = CHR ''-'');
          body = (if s \<noteq> [] \<and> (hd s = CHR ''-'' \<or> hd s = CHR ''+'') then tl s else s)
      in if body \<noteq> [] \<and> is_digit (hd body)
         then map_option (\<lambda>n. if neg then - int n else int n) (int_body body 0)
         else None)"

text \<open>
  \<open>profile_sort_key\<close>: \<open>dirname.split()[-1]\<close> raises \<open>IndexError\<close> when there is no
  piece, \<open>int\<close> raises \<open>ValueError\<close>, and both land in the last group.
\<close>

definition profile_sort_key :: "string \<Rightarrow> nat \<times> int" where
  "profile_sort_key dirname =
     (if dirname = ''Default'' then (0, 0)
      else (case py_split dirname of
              [] \<Rightarrow> (2, 0)
            | toks \<Rightarrow> (case py_int (last toks) of
                         Some num \<Rightarrow> (1, num)
                       | None \<Rightarrow> (2, 0))))"

text \<open>
  \<open>sorted(info_cache.keys(), key=profile_sort_key)\<close>: Python's sort is stable, as
  \<open>sort_key\<close> is.
\<close>

definition sorted_dirs :: "(string \<times> json) list \<Rightarrow> string list" where
  "sorted_dirs info_cache = sort_key profile_sort_key (map fst info_cache)"

section \<open>The world of the process\<close>

text \<open>
  Three library functions are parameters of the model: \<open>json.dumps\<close>, \<open>json.loads\<close>
  (\<open>Inl\<close> is a \<open>JSONDecodeError\<close> with its message), \<open>base64.b64encode\<close>, and the text
  \<open>repr\<close> that an f-string prints for a value that is not a string.
\<close>

record pylib =
  dumps :: "json \<Rightarrow> string"
  loads :: "string \<Rightarrow> string + json"
  b64encode :: "string \<Rightarrow> string"
  repr :: "json \<Rightarrow> string"

text \<open>
  What the process can change: the files of \<open>SIGNAL_DIR\<close> (file name to content, as
  bytes), the monotonic clock in milliseconds, the argument vectors of the processes it
  started, the arguments of the watcher threads it started, and the messages it wrote to
  standard output. The directory itself is created on the first write; file names are
  plain names, and the calls on the file system succeed. \<open>time.monotonic()\<close>, the
  timeout and the sleeps are seconds as floating point numbers in the source and whole
  milliseconds here: \<open>2.0\<close> is \<open>2000\<close>, \<open>0.1\<close> is \<open>100\<close> and \<open>0.3\<close> is \<open>300\<close>.
\<close>

type_synonym dir = "string \<rightharpoonup> string"

record world =
  files :: dir
  clock :: nat
  spawned :: "string list list"
  threads :: "json list"
  outbox :: "json list"

text \<open>
  What the process cannot change. The other processes of the machine work on
  \<open>SIGNAL_DIR\<close> while this one sleeps: \<open>acts E t\<close> is what they do to it during the
  millisecond \<open>t\<close>. A sleep that starts at clock \<open>c\<close> lasts \<open>lag E c\<close> longer than asked.
  \<open>popen_error E argv\<close> is the message of the \<open>OSError\<close> when the browser cannot be
  started with \<open>argv\<close>. \<open>local_state_file\<close> is the content of Chrome's \<open>Local State\<close>,
  or the message of the \<open>OSError\<close> that reading it raises, and \<open>picture E d\<close> the content
  of the profile picture of the directory \<open>d\<close> when it can be read.
\<close>

record env =
  acts :: "nat \<Rightarrow> dir \<Rightarrow> dir"
  lag :: "nat \<Rightarrow> nat"
  popen_error :: "string list \<Rightarrow> string option"
  local_state_file :: "string + string"
  picture :: "string \<Rightarrow> string option"

text \<open>A call returns a value or raises; both leave a world behind.\<close>

datatype 'a outcome = Returns 'a world | Raises error world

definition files_at :: "env \<Rightarrow> world \<Rightarrow> nat \<Rightarrow> dir" where
  "files_at E w t = fold (acts E) [clock w..<t] (files w)"

text \<open>\<open>time.sleep(d)\<close>.\<close>

definition sleep :: "env \<Rightarrow> nat \<Rightarrow> world \<Rightarrow> world" where
  "sleep E d w = w\<lparr>clock := clock w + d + lag E (clock w),
                    files := files_at E w (clock w + d + lag E (clock w))\<rparr>"

text \<open>\<open>send_message\<close>: one framed message on standard output.\<close>

definition send_message :: "json \<Rightarrow> world \<Rightarrow> world" where
  "send_message msg w = w\<lparr>outbox := outbox w @ [msg]\<rparr>"

section \<open>Signal files\<close>

text \<open>\<open>SIGNAL_DIR / profile_dir\<close> raises \<open>TypeError\<close> unless \<open>profile_dir\<close> is a string.\<close>

definition signal_path :: "json \<Rightarrow> error + string" where
  "signal_path profile_dir = (case profile_dir of JString p \<Rightarrow> Inr p | _ \<Rightarrow> Inl TypeError)"

definition unlink :: "string \<Rightarrow> world \<Rightarrow> world" where
  "unlink p w = w\<lparr>files := (files w)(p := None)\<rparr>"

definition write_signal :: "pylib \<Rightarrow> json \<Rightarrow> json \<Rightarrow> world \<Rightarrow> unit outcome" where
  "write_signal J profile_dir data w =
     (case signal_path profile_dir of
        Inl e \<Rightarrow> Raises e w
      | Inr p \<Rightarrow> Returns () (w\<lparr>files := (files w)(p \<mapsto> dumps J (py_or data (JObject [])))\<rparr>))"

text \<open>
  \<open>read_signal\<close>. \<open>read_text(encoding="utf-8")\<close> raises \<open>UnicodeDecodeError\<close> on bytes
  that are not UTF-8; the handler lists \<open>OSError\<close> and \<open>JSONDecodeError\<close> only, so that
  exception leaves the function. With the file system calls succeeding, the \<open>OSError\<close>
  branch of the handler is not reached.
\<close>

definition read_signal :: "pylib \<Rightarrow> json \<Rightarrow> world \<Rightarrow> json outcome" where
  "read_signal J profile_dir w =
     (case signal_path profile_dir of
        Inl e \<Rightarrow> Raises e w
      | Inr p \<Rightarrow>
          (case files w p of
             None \<Rightarrow> Returns JNull w
           | Some content \<Rightarrow>
               if \<not> utf8_valid content then Raises UnicodeDecodeError w
               else (case loads J content of
                       Inr data \<Rightarrow> Returns data (unlink p w)
                     | Inl e \<Rightarrow> Returns JNull (unlink p w))))"

text \<open>The loop of \<open>wait_for_signal_consumed\<close>, and what follows it.\<close>

function wait_loop :: "env \<Rightarrow> string \<Rightarrow> nat \<Rightarrow> world \<Rightarrow> bool \<times> world" where
  "wait_loop E p deadline w =
     (if clock w < deadline
      then (if files w p = None then (True, w) else wait_loop E p deadline (sleep E 100 w))
      else (False, unlink p w))"
  by pat_completeness auto
termination
  by (relation "measure (\<lambda>(E, p, deadline, w). deadline - clock w)") (auto simp: sleep_def)

declare wait_loop.simps [simp del]

definition wait_for_signal_consumed :: "env \<Rightarrow> json \<Rightarrow> nat \<Rightarrow> world \<Rightarrow> bool outcome" where
  "wait_for_signal_consumed E profile_dir timeout w =
     (case signal_path profile_dir of
        Inl e \<Rightarrow> Raises e w
      | Inr p \<Rightarrow> (case wait_loop E p (clock w + timeout) w of (consumed, w') \<Rightarrow> Returns consumed w'))"

section \<open>The watcher\<close>

definition activate_event :: json where
  "activate_event = JObject [(''action'', JString ''activate'')]"

definition open_url_event :: "json \<Rightarrow> json" where
  "open_url_event url = JObject [(''action'', JString ''open-url''), (''url'', url)]"

text \<open>One round of the loop of \<open>signal_watcher\<close>.\<close>

definition watcher_step :: "pylib \<Rightarrow> env \<Rightarrow> json \<Rightarrow> world \<Rightarrow> unit outcome" where
  "watcher_step J E profile_dir w =
     (case read_signal J profile_dir w of
        Raises e w' \<Rightarrow> Raises e w'
      | Returns signal w' \<Rightarrow>
          if signal \<noteq> JNull then
            (case py_get signal ''url'' of
               Inl e \<Rightarrow> Raises e w'
             | Inr url \<Rightarrow>
                 Returns () (sleep E 300
                   (send_message (if truthy url then open_url_event url else activate_event) w')))
          else Returns () (sleep E 300 w'))"

text \<open>
  \<open>signal_watcher\<close> never returns; \<open>signal_watcher J E profile_dir n\<close> is its first \<open>n\<close>
  rounds, and \<open>Returns\<close> there means that the loop is still running.
\<close>

fun signal_watcher :: "pylib \<Rightarrow> env \<Rightarrow> json \<Rightarrow> nat \<Rightarrow> world \<Rightarrow> unit outcome" where
  "signal_watcher J E profile_dir 0 w = Returns () w"
| "signal_watcher J E profile_dir (Suc n) w =
     (case watcher_step J E profile_dir w of
        Raises e w' \<Rightarrow> Raises e w'
      | Returns u w' \<Rightarrow> signal_watcher J E profile_dir n w')"

section \<open>Switching profiles\<close>

definition CHROME_BIN :: string where
  "CHROME_BIN = ''/Applications/Google Chrome.app/Contents/MacOS/Google Chrome''"

definition osascript_argv :: "string list" where
  \<open>osascript_argv = [''osascript'', ''-e'', ''tell application "Google Chrome" to activate'']\<close>

text \<open>
  \<open>activate_chrome\<close> starts the helper and does not wait for it. The source has no
  handler around this call; the helper is part of the system, and starting it is taken
  to succeed.
\<close>

definition activate_chrome :: "world \<Rightarrow> world" where
  "activate_chrome w = w\<lparr>spawned := spawned w @ [osascript_argv]\<rparr>"

text \<open>\<open>subprocess.Popen(argv)\<close> for the browser: \<open>Inl\<close> is the \<open>OSError\<close>.\<close>

definition popen :: "env \<Rightarrow> string list \<Rightarrow> world \<Rightarrow> string + world" where
  "popen E argv w =
     (case popen_error E argv of
        Some e \<Rightarrow> Inl e
      | None \<Rightarrow> Inr (w\<lparr>spawned := spawned w @ [argv]\<rparr>))"

definition signal_result :: json where
  "signal_result = JObject [(''success'', JBool True), (''method'', JString ''signal'')]"

definition launch_result :: json where
  "launch_result = JObject [(''success'', JBool True), (''method'', JString ''launch'')]"

definition launch_error :: "string \<Rightarrow> json" where
  "launch_error e = JObject [(''error'', JString (''Failed to launch Chrome: '' @ e))]"

definition switch_profile :: "pylib \<Rightarrow> env \<Rightarrow> json \<Rightarrow> world \<Rightarrow> json outcome" where
  "switch_profile J E profile_dir w =
     (case write_signal J profile_dir JNull (activate_chrome w) of
        Raises e w1 \<Rightarrow> Raises e w1
      | Returns u w1 \<Rightarrow>
          (case wait_for_signal_consumed E profile_dir 2000 w1 of
             Raises e w2 \<Rightarrow> Raises e w2
           | Returns consumed w2 \<Rightarrow>
               if consumed then Returns signal_result w2
               else (case signal_path profile_dir of
                       Inl e \<Rightarrow> Raises e w2
                     | Inr p \<Rightarrow>
                         (case popen E [CHROME_BIN, ''--profile-directory='' @ p] w2 of
                            Inr w3 \<Rightarrow> Returns launch_result w3
                          | Inl e \<Rightarrow> Returns (launch_error e) w2))))"

text \<open>
  \<open>open_url_in_profile\<close>. \<open>Popen\<close> raises \<open>TypeError\<close> for an argument that is not a
  string, which the handler for \<open>OSError\<close> does not catch.
\<close>

definition open_url_in_profile :: "pylib \<Rightarrow> env \<Rightarrow> json \<Rightarrow> json \<Rightarrow> world \<Rightarrow> json outcome" where
  "open_url_in_profile J E profile_dir url w =
     (case write_signal J profile_dir (JObject [(''url'', url)]) (activate_chrome w) of
        Raises e w1 \<Rightarrow> Raises e w1
      | Returns u w1 \<Rightarrow>
          (case wait_for_signal_consumed E profile_dir 2000 w1 of
             Raises e w2 \<Rightarrow> Raises e w2
           | Returns consumed w2 \<Rightarrow>
               if consumed then Returns signal_result w2
               else (case (signal_path profile_dir, url) of
                       (Inr p, JString u) \<Rightarrow>
                         (case popen E [CHROME_BIN, ''--profile-directory='' @ p, u] w2 of
                            Inr w3 \<Rightarrow> Returns launch_result w3
                          | Inl e \<Rightarrow> Returns (launch_error e) w2)
                     | _ \<Rightarrow> Raises TypeError w2)))"

section \<open>Profile enumeration\<close>

definition error_result :: "string \<Rightarrow> json" where
  "error_result msg = JObject [(''error'', JString msg)]"

text \<open>\<open>read_avatar_base64\<close>: \<open>None\<close> when the picture is missing or cannot be read.\<close>

definition read_avatar_base64 :: "pylib \<Rightarrow> env \<Rightarrow> string \<Rightarrow> json" where
  "read_avatar_base64 J E profile_dir =
     (case picture E profile_dir of
        None \<Rightarrow> JNull
      | Some data \<Rightarrow> JString (''data:image/png;base64,'' @ b64encode J data))"

definition profile_record :: "string \<Rightarrow> json \<Rightarrow> json \<Rightarrow> json \<Rightarrow> json \<Rightarrow> json" where
  "profile_record dirname name user_name highlight_color avatar =
     JObject [(''directory'', JString dirname), (''name'', name), (''email'', user_name),
              (''highlightColor'', highlight_color), (''avatar'', avatar)]"

text \<open>
  The loop of \<open>get_profiles\<close> over \<open>enumerate(sorted_dirs)\<close>, with the list \<open>profiles\<close>
  and \<open>current_index\<close> as they stand before the round.
\<close>

fun profiles_loop ::
  "pylib \<Rightarrow> env \<Rightarrow> (string \<times> json) list \<Rightarrow> json \<Rightarrow> string list \<Rightarrow> nat \<Rightarrow> json list \<Rightarrow> json
     \<Rightarrow> error + json list \<times> json" where
  "profiles_loop J E info_cache current_email [] i profiles current_index =
     Inr (profiles, current_index)"
| "profiles_loop J E info_cache current_email (dirname # rest) i profiles current_index =
     (case map_of info_cache dirname of
        None \<Rightarrow> Inl KeyError
      | Some info \<Rightarrow>
     (case py_get_default info ''user_name'' (JString []) of
        Inl e \<Rightarrow> Inl e
      | Inr user_name \<Rightarrow>
     (case py_get_default info ''name'' (JString dirname) of
        Inl e \<Rightarrow> Inl e
      | Inr name \<Rightarrow>
     (case py_get info ''profile_highlight_color'' of
        Inl e \<Rightarrow> Inl e
      | Inr color \<Rightarrow>
     (case highlight_color_to_hex color of
        Inl e \<Rightarrow> Inl e
      | Inr highlight_color \<Rightarrow>
          profiles_loop J E info_cache current_email rest (i + 1)
            (profiles @ [profile_record dirname name user_name highlight_color
                           (read_avatar_base64 J E dirname)])
            (if truthy current_email \<and> py_eq user_name current_email
             then JInt (int i) else current_index))))))"

text \<open>
  \<open>get_profiles\<close>. A \<open>Local State\<close> that is not UTF-8 raises \<open>UnicodeDecodeError\<close>,
  which the handler does not list; \<open>info_cache.keys()\<close> needs a \<open>dict\<close>.
\<close>

definition get_profiles :: "pylib \<Rightarrow> env \<Rightarrow> json \<Rightarrow> error + json" where
  "get_profiles J E current_email =
     (case local_state_file E of
        Inl e \<Rightarrow> Inr (error_result (''Failed to read Local State: '' @ e))
      | Inr content \<Rightarrow>
     if \<not> utf8_valid content then Inl UnicodeDecodeError
     else
     (case loads J content of
        Inl e \<Rightarrow> Inr (error_result (''Failed to read Local State: '' @ e))
      | Inr local_state \<Rightarrow>
     (case py_get_default local_state ''profile'' (JObject []) of
        Inl e \<Rightarrow> Inl e
      | Inr profile \<Rightarrow>
     (case py_get_default profile ''info_cache'' (JObject []) of
        Inl e \<Rightarrow> Inl e
      | Inr info_cache \<Rightarrow>
     if \<not> truthy info_cache then Inr (error_result ''No profiles found in Local State'')
     else
     (case info_cache of
        JObject kvs \<Rightarrow>
          (case profiles_loop J E kvs current_email (sorted_dirs kvs) 0 [] JNull of
             Inl e \<Rightarrow> Inl e
           | Inr (profiles, current_index) \<Rightarrow>
               Inr (JObject [(''profiles'', JArray profiles), (''currentIndex'', current_index)]))
      | _ \<Rightarrow> Inl AttributeError)))))"

section \<open>The dispatch loop\<close>

text \<open>What an f-string prints for a value.\<close>

definition py_str :: "pylib \<Rightarrow> json \<Rightarrow> string" where
  "py_str J v = (case v of JString s \<Rightarrow> s | _ \<Rightarrow> repr J v)"

definition success_result :: json where
  "success_result = JObject [(''success'', JBool True)]"

text \<open>
  The branch of \<open>main\<close> on the action: the new value of \<open>watcher_started\<close> and
  \<open>result\<close>. Starting the watcher thread is recorded with its argument.
\<close>

definition dispatch ::
  "pylib \<Rightarrow> env \<Rightarrow> bool \<Rightarrow> json \<Rightarrow> json \<Rightarrow> world \<Rightarrow> (bool \<times> json) outcome" where
  "dispatch J E watcher_started action msg w =
     (if action = JString ''register'' then
        (case py_get msg ''profileDir'' of
           Inl e \<Rightarrow> Raises e w
         | Inr profile_dir \<Rightarrow>
             if truthy profile_dir \<and> \<not> watcher_started
             then Returns (True, success_result) (w\<lparr>threads := threads w @ [profile_dir]\<rparr>)
             else Returns (watcher_started, success_result) w)
      else if action = JString ''get-profiles'' then
        (case py_get msg ''currentEmail'' of
           Inl e \<Rightarrow> Raises e w
         | Inr current_email \<Rightarrow>
             (case get_profiles J E current_email of
                Inl e \<Rightarrow> Raises e w
              | Inr result \<Rightarrow> Returns (watcher_started, result) w))
      else if action = JString ''switch-profile'' then
        (case py_get msg ''profileDir'' of
           Inl e \<Rightarrow> Raises e w
         | Inr profile_dir \<Rightarrow>
             (case switch_profile J E profile_dir w of
                Raises e w' \<Rightarrow> Raises e w'
              | Returns result w' \<Rightarrow> Returns (watcher_started, result) w'))
      else if action = JString ''open-url-in-profile'' then
        (case py_get msg ''profileDir'' of
           Inl e \<Rightarrow> Raises e w
         | Inr profile_dir \<Rightarrow>
             (case py_get msg ''url'' of
                Inl e \<Rightarrow> Raises e w
              | Inr url \<Rightarrow>
                  (case open_url_in_profile J E profile_dir url w of
                     Raises e w' \<Rightarrow> Raises e w'
                   | Returns result w' \<Rightarrow> Returns (watcher_started, result) w')))
      else Returns (watcher_started, error_result (''Unknown action: '' @ py_str J action)) w)"

text \<open>
  One round of the loop of \<open>main\<close> for the message \<open>msg\<close> that \<open>read_message\<close>
  returned: the value of \<open>watcher_started\<close> after it.
\<close>

definition main_step :: "pylib \<Rightarrow> env \<Rightarrow> bool \<Rightarrow> json \<Rightarrow> world \<Rightarrow> bool outcome" where
  "main_step J E watcher_started msg w =
     (case py_get msg ''action'' of
        Inl e \<Rightarrow> Raises e w
      | Inr action \<Rightarrow>
     (case py_get msg ''id'' of
        Inl e \<Rightarrow> Raises e w
      | Inr msg_id \<Rightarrow>
     (case dispatch J E watcher_started action msg w of
        Raises e w' \<Rightarrow> Raises e w'
      | Returns (started, result) w' \<Rightarrow>
          (case result of
             JObject kvs \<Rightarrow>
               Returns started
                 (send_message
                    (if msg_id \<noteq> JNull then JObject (dict_set kvs ''id'' msg_id) else result) w')
           | _ \<Rightarrow> Raises TypeError w'))))"

text \<open>
  \<open>main\<close> on the messages that arrive before standard input closes; an exception ends
  the process.
\<close>

fun main_loop :: "pylib \<Rightarrow> env \<Rightarrow> bool \<Rightarrow> json list \<Rightarrow> world \<Rightarrow> bool outcome" where
  "main_loop J E watcher_started [] w = Returns watcher_started w"
| "main_loop J E watcher_started (msg # msgs) w =
     (case main_step J E watcher_started msg w of
        Raises e w' \<Rightarrow> Raises e w'
      | Returns started w' \<Rightarrow> main_loop J E started msgs w')"

definition main :: "pylib \<Rightarrow> env \<Rightarrow> json list \<Rightarrow> world \<Rightarrow> bool outcome" where
  "main J E msgs w = main_loop J E False msgs w"

section \<open>The interface, as it is stated\<close>








text \<open>
  An instance of the library for the examples: it prints and reads the empty signal and
  a signal with a URL that needs no escaping.
\<close>

definition plain :: "string \<Rightarrow> bool" where
  "plain s = list_all (\<lambda>c. byte_in c 32 126 \<and> c \<noteq> CHR 0x22 \<and> c \<noteq> CHR 0x5C) s"

definition demo_dumps :: "json \<Rightarrow> string" where
  \<open>demo_dumps v =
     (case v of
        JObject [] \<Rightarrow> ''{}''
      | JObject [(k, JString s)] \<Rightarrow> ''{"'' @ k @ ''": "'' @ s @ ''"}''
      | _ \<Rightarrow> ''null'')\<close>

definition demo_loads :: "string \<Rightarrow> string + json" where
  \<open>demo_loads s =
     (if s = ''{}'' then Inr (JObject [])
      else if s = ''null'' then Inr JNull
      else if take 9 s = ''{"url": "'' \<and> 11 \<le> length s \<and> drop (length s - 2) s = ''"}''
              \<and> plain (take (length s - 11) (drop 9 s))
      then Inr (JObject [(''url'', JString (take (length s - 11) (drop 9 s)))])
      else Inl ''Expecting value'')\<close>

definition demo_lib :: pylib where
  "demo_lib = \<lparr>dumps = demo_dumps, loads = demo_loads, b64encode = (\<lambda>s. s), repr = demo_dumps\<rparr>"

text \<open>
  The world at the \<open>k\<close>-th poll of \<open>wait_for_signal_consumed\<close>, should the loop get that
  far: \<open>k\<close> sleeps of a tenth of a second after the call.
\<close>

definition polls :: "env \<Rightarrow> world \<Rightarrow> nat \<Rightarrow> world" where
  "polls E w k = ((sleep E 100) ^^ k) w"

text \<open>
  An environment in which another process removes the file \<open>p\<close> during the millisecond
  \<open>t\<close>, and nothing else happens.
\<close>

definition taken_at :: "string \<Rightarrow> nat \<Rightarrow> env" where
  "taken_at p t =
     \<lparr>acts = (\<lambda>t' fs. if t' = t then fs(p := None) else fs), lag = (\<lambda>c. 0),
      popen_error = (\<lambda>argv. None), local_state_file = Inl ''No such file or directory'',
      picture = (\<lambda>d. None)\<rparr>"

definition start_world :: world where
  "start_world = \<lparr>files = Map.empty, clock = 0, spawned = [], threads = [], outbox = []\<rparr>"

text \<open>What a call left behind, and the value it returned, if it returned.\<close>

fun world_of :: "'a outcome \<Rightarrow> world" where
  "world_of (Returns x w) = w"
| "world_of (Raises e w) = w"

fun returned :: "'a outcome \<Rightarrow> 'a option" where
  "returned (Returns x w) = Some x"
| "returned (Raises e w) = None"

text \<open>
  The identifier that a request registers: the \<open>profileDir\<close> of a \<open>register\<close> request
  when it is truthy. \<open>first_registered\<close> is the one of the first such request.
\<close>

definition registers :: "json \<Rightarrow> json option" where
  "registers msg =
     (case msg of
        JObject kvs \<Rightarrow>
          (case map_of kvs ''profileDir'' of
             Some profile_dir \<Rightarrow>
               if map_of kvs ''action'' = Some (JString ''register'') \<and> truthy profile_dir
               then Some profile_dir else None
           | None \<Rightarrow> None)
      | _ \<Rightarrow> None)"

fun first_registered :: "json list \<Rightarrow> json option" where
  "first_registered [] = None"
| "first_registered (msg # msgs) =
     (case registers msg of Some profile_dir \<Rightarrow> Some profile_dir | None \<Rightarrow> first_registered msgs)"



text \<open>
  What \<open>msg.get("action")\<close> and \<open>msg.get("id")\<close> give for a message with the items
  \<open>kvs\<close>, and the results of \<open>switch_profile\<close> and \<open>open_url_in_profile\<close>.
\<close>

definition action_of :: "(string \<times> json) list \<Rightarrow> json" where
  "action_of kvs = (case map_of kvs ''action'' of None \<Rightarrow> JNull | Some v \<Rightarrow> v)"

definition msg_id_of :: "(string \<times> json) list \<Rightarrow> json" where
  "msg_id_of kvs = (case map_of kvs ''id'' of None \<Rightarrow> JNull | Some v \<Rightarrow> v)"

definition switch_result :: "json \<Rightarrow> bool" where
  "switch_result r = (r = signal_result \<or> r = launch_result \<or> (\<exists>e. r = launch_error e))"

section \<open>Highlight colour: proofs\<close>

lemma hex_nat_small: "n < 16 \<Longrightarrow> hex_nat n = [hexdigit n]"
  by (simp add: hex_nat.simps)

lemma hex_nat_byte:
  "n < 256 \<Longrightarrow> 16 \<le> n \<Longrightarrow> hex_nat n = [hexdigit (n div 16), hexdigit (n mod 16)]"
  by (subst hex_nat.simps) (simp add: hex_nat_small)

lemma format_02x_byte: "0 \<le> r \<Longrightarrow> r < 256 \<Longrightarrow> format_02x r = hex_byte (nat r)"
proof (cases "nat r < 16")
  case True
  assume "0 \<le> r" "r < 256"
  with True show ?thesis
    by (simp add: format_02x_def hex_byte_def hex_nat_small hexdigit_def)
next
  case False
  assume "0 \<le> r" "r < 256"
  with False show ?thesis
    by (simp add: format_02x_def hex_byte_def hex_nat_byte)
qed

lemma and_ff: "(x::int) AND 0xFF = x mod 2 ^ 8"
proof -
  have "(0xFF::int) = mask 8" by (simp add: mask_eq_exp_minus_1)
  then show ?thesis by (simp only: take_bit_eq_mask [symmetric] take_bit_eq_mod)
qed

lemma and_ffffffff: "(x::int) AND 0xFFFFFFFF = x mod 2 ^ 32"
proof -
  have "(0xFFFFFFFF::int) = mask 32" by (simp add: mask_eq_exp_minus_1)
  then show ?thesis by (simp only: take_bit_eq_mask [symmetric] take_bit_eq_mod)
qed

lemma color_hex_rrggbb: "color_hex v = rrggbb v"
proof -
  define u where "u = v mod 2 ^ 32"
  have u0: "0 \<le> u" by (simp add: u_def)
  have r: "format_02x ((u div 2 ^ 16) mod 2 ^ 8) = hex_byte (nat u div 2 ^ 16 mod 2 ^ 8)"
    using u0 by (simp add: format_02x_byte nat_div_distrib nat_mod_distrib nat_power_eq)
  have g: "format_02x ((u div 2 ^ 8) mod 2 ^ 8) = hex_byte (nat u div 2 ^ 8 mod 2 ^ 8)"
    using u0 by (simp add: format_02x_byte nat_div_distrib nat_mod_distrib nat_power_eq)
  have b: "format_02x (u mod 2 ^ 8) = hex_byte (nat u mod 2 ^ 8)"
    using u0 by (simp add: format_02x_byte nat_div_distrib nat_mod_distrib nat_power_eq)
  show ?thesis
    unfolding color_hex_def rrggbb_def Let_def and_ff and_ffffffff drop_bit_eq_div
    using r g b by (simp add: u_def)
qed

lemma hexdigit_lower: "n < 16 \<Longrightarrow> hexdigit n \<in> set ''0123456789abcdef''"
  unfolding hexdigit_def by (rule nth_mem) simp

lemma rrggbb_shape:
  "length (rrggbb v) = 7 \<and> hd (rrggbb v) = CHR ''#''
     \<and> set (tl (rrggbb v)) \<subseteq> set ''0123456789abcdef''"
  using hexdigit_lower by (simp add: rrggbb_def hex_byte_def Let_def)

text \<open>
  C8. The highlight colour conversion maps null to null and every integer, so every
  signed 32-bit one, to the string \<open>#rrggbb\<close> of the interface: seven characters, \<open>#\<close>
  and six lowercase hexadecimal digits, red from bits 16 to 23, green from bits 8 to 15
  and blue from bits 0 to 7 of the value masked to 32 bits. \<open>-1\<close> gives \<open>#ffffff\<close> and
  \<open>0x00112233\<close> gives \<open>#112233\<close>.
\<close>

theorem highlight_color_to_hex_rrggbb:
  "highlight_color_to_hex JNull = Inr JNull
   \<and> highlight_color_to_hex (JInt v) = Inr (JString (rrggbb v))
   \<and> length (rrggbb v) = 7 \<and> hd (rrggbb v) = CHR ''#''
   \<and> set (tl (rrggbb v)) \<subseteq> set ''0123456789abcdef''
   \<and> highlight_color_to_hex (JInt (- 1)) = Inr (JString ''#ffffff'')
   \<and> highlight_color_to_hex (JInt 0x00112233) = Inr (JString ''#112233'')"
proof -
  have "rrggbb (- 1) = ''#ffffff''" "rrggbb 0x00112233 = ''#112233''"
    by (simp_all add: rrggbb_def hex_byte_def hexdigit_def)
  then show ?thesis
    using rrggbb_shape [of v] by (simp add: color_hex_rrggbb)
qed

theorem highlight_color_to_hex_rrggbb_witness:
  "highlight_color_to_hex (JInt (- 16711936)) = Inr (JString ''#00ff00'')"
proof -
  have "rrggbb (- 16711936) = ''#00ff00''"
    by (simp add: rrggbb_def hex_byte_def hexdigit_def)
  then show ?thesis
    using highlight_color_to_hex_rrggbb [of "- 16711936"] by simp
qed

section \<open>Profile ordering: proofs\<close>























section \<open>Signal files: proofs\<close>

lemma write_signal_str:
  "write_signal J (JString p) data w
     = Returns () (w\<lparr>files := (files w)(p \<mapsto> dumps J (py_or data (JObject [])))\<rparr>)"
  by (simp add: write_signal_def signal_path_def)

lemma py_or_object: "py_or (JObject kvs) (JObject []) = JObject kvs"
  by (cases kvs) (simp_all add: py_or_def)

lemma read_signal_absent:
  "files w p = None \<Longrightarrow> read_signal J (JString p) w = Returns JNull w"
  by (simp add: read_signal_def signal_path_def)

lemma read_signal_parsed:
  "files w p = Some content \<Longrightarrow> utf8_valid content \<Longrightarrow> loads J content = Inr data \<Longrightarrow>
     read_signal J (JString p) w = Returns data (unlink p w)"
  by (simp add: read_signal_def signal_path_def)

text \<open>
  Text that \<open>json.loads\<close> rejects is cleared and reported as no signal.
\<close>

lemma read_signal_rejected_text:
  "files w p = Some content \<Longrightarrow> utf8_valid content \<Longrightarrow> loads J content = Inl e \<Longrightarrow>
     read_signal J (JString p) w = Returns JNull (unlink p w) \<and> files (unlink p w) p = None"
  by (simp add: read_signal_def signal_path_def unlink_def)

lemma read_signal_not_text:
  "files w p = Some content \<Longrightarrow> \<not> utf8_valid content \<Longrightarrow>
     read_signal J (JString p) w = Raises UnicodeDecodeError w"
  by (simp add: read_signal_def signal_path_def)

text \<open>
  C4. A slot whose content is not UTF-8, here the single byte \<open>0xFF\<close>, fails to parse as
  JSON, yet \<open>read_signal\<close> neither returns "absent" nor removes it: it raises
  \<open>UnicodeDecodeError\<close> and leaves the slot as it was, and so does every round of the
  watcher, whose thread ends with that exception.
\<close>

theorem read_signal_not_utf8:
  "read_signal demo_lib (JString ''Profile 1'')
       \<lparr>files = [''Profile 1'' \<mapsto> [CHR 0xFF]], clock = 0, spawned = [], threads = [], outbox = []\<rparr>
     = Raises UnicodeDecodeError
       \<lparr>files = [''Profile 1'' \<mapsto> [CHR 0xFF]], clock = 0, spawned = [], threads = [], outbox = []\<rparr>
   \<and> signal_watcher demo_lib E (JString ''Profile 1'') (Suc n)
       \<lparr>files = [''Profile 1'' \<mapsto> [CHR 0xFF]], clock = 0, spawned = [], threads = [], outbox = []\<rparr>
     = Raises UnicodeDecodeError
       \<lparr>files = [''Profile 1'' \<mapsto> [CHR 0xFF]], clock = 0, spawned = [], threads = [], outbox = []\<rparr>"
  by (simp add: watcher_step_def read_signal_def signal_path_def byte_in_def)

text \<open>
  C5. For every profile identifier \<open>p\<close> and every payload, a JSON object that the library
  prints and reads back, \<open>take(p)\<close> right after \<open>write(p, X)\<close> returns \<open>X\<close> and removes
  the slot, and a second \<open>take(p)\<close> returns "absent" (\<open>None\<close>) and changes nothing.
\<close>

theorem write_then_take_twice:
  assumes "utf8_valid (dumps J (JObject kvs))"
    and "loads J (dumps J (JObject kvs)) = Inr (JObject kvs)"
  shows "write_signal J (JString p) (JObject kvs) w
           = Returns () (w\<lparr>files := (files w)(p \<mapsto> dumps J (JObject kvs))\<rparr>)
         \<and> read_signal J (JString p) (w\<lparr>files := (files w)(p \<mapsto> dumps J (JObject kvs))\<rparr>)
           = Returns (JObject kvs) (w\<lparr>files := (files w)(p := None)\<rparr>)
         \<and> read_signal J (JString p) (w\<lparr>files := (files w)(p := None)\<rparr>)
           = Returns JNull (w\<lparr>files := (files w)(p := None)\<rparr>)"
proof -
  let ?w1 = "w\<lparr>files := (files w)(p \<mapsto> dumps J (JObject kvs))\<rparr>"
  have 1: "write_signal J (JString p) (JObject kvs) w = Returns () ?w1"
    by (simp add: write_signal_str py_or_object)
  have "read_signal J (JString p) ?w1 = Returns (JObject kvs) (unlink p ?w1)"
    using assms by (intro read_signal_parsed) simp_all
  then have 2: "read_signal J (JString p) ?w1 = Returns (JObject kvs) (w\<lparr>files := (files w)(p := None)\<rparr>)"
    by (simp add: unlink_def)
  have 3: "read_signal J (JString p) (w\<lparr>files := (files w)(p := None)\<rparr>)
           = Returns JNull (w\<lparr>files := (files w)(p := None)\<rparr>)"
    by (rule read_signal_absent) simp
  from 1 2 3 show ?thesis by blast
qed

theorem write_then_take_twice_witness:
  "read_signal demo_lib (JString ''Profile 1'')
       \<lparr>files = [''Profile 1'' \<mapsto> demo_dumps (JObject [(''url'', JString ''https://example.org/'')])],
        clock = 0, spawned = [], threads = [], outbox = []\<rparr>
     = Returns (JObject [(''url'', JString ''https://example.org/'')])
       \<lparr>files = Map.empty(''Profile 1'' := None), clock = 0, spawned = [], threads = [], outbox = []\<rparr>"
proof -
  let ?X = "[(''url'', JString ''https://example.org/'')]"
  have h1: "utf8_valid (dumps demo_lib (JObject ?X))"
    by (simp add: demo_lib_def demo_dumps_def byte_in_def)
  have h2: "loads demo_lib (dumps demo_lib (JObject ?X)) = Inr (JObject ?X)"
    by (simp add: demo_lib_def demo_dumps_def demo_loads_def plain_def byte_in_def)
  show ?thesis
    using write_then_take_twice [OF h1 h2, of "''Profile 1''"
        "\<lparr>files = Map.empty, clock = 0, spawned = [], threads = [], outbox = []\<rparr>"]
    by (simp add: demo_lib_def)
qed

text \<open>
  C6. For every profile identifier \<open>p\<close>, every first payload \<open>A\<close> and every second
  payload \<open>B\<close>, a JSON object that the library prints and reads back: after \<open>write(p, A)\<close>
  and \<open>write(p, B)\<close> the world is the one that \<open>write(p, B)\<close> alone leaves, \<open>take(p)\<close>
  returns \<open>B\<close> and removes the slot, and the next \<open>take(p)\<close> returns "absent".
\<close>

theorem last_write_wins:
  assumes "utf8_valid (dumps J (JObject kvs))"
    and "loads J (dumps J (JObject kvs)) = Inr (JObject kvs)"
  shows "write_signal J (JString p) A w
           = Returns () (w\<lparr>files := (files w)(p \<mapsto> dumps J (py_or A (JObject [])))\<rparr>)
         \<and> write_signal J (JString p) (JObject kvs)
             (w\<lparr>files := (files w)(p \<mapsto> dumps J (py_or A (JObject [])))\<rparr>)
           = write_signal J (JString p) (JObject kvs) w
         \<and> write_signal J (JString p) (JObject kvs) w
           = Returns () (w\<lparr>files := (files w)(p \<mapsto> dumps J (JObject kvs))\<rparr>)
         \<and> read_signal J (JString p) (w\<lparr>files := (files w)(p \<mapsto> dumps J (JObject kvs))\<rparr>)
           = Returns (JObject kvs) (w\<lparr>files := (files w)(p := None)\<rparr>)
         \<and> read_signal J (JString p) (w\<lparr>files := (files w)(p := None)\<rparr>)
           = Returns JNull (w\<lparr>files := (files w)(p := None)\<rparr>)"
proof -
  let ?w1 = "w\<lparr>files := (files w)(p \<mapsto> dumps J (JObject kvs))\<rparr>"
  have "read_signal J (JString p) ?w1 = Returns (JObject kvs) (unlink p ?w1)"
    using assms by (intro read_signal_parsed) simp_all
  then have 2: "read_signal J (JString p) ?w1 = Returns (JObject kvs) (w\<lparr>files := (files w)(p := None)\<rparr>)"
    by (simp add: unlink_def)
  have 3: "read_signal J (JString p) (w\<lparr>files := (files w)(p := None)\<rparr>)
           = Returns JNull (w\<lparr>files := (files w)(p := None)\<rparr>)"
    by (rule read_signal_absent) simp
  from 2 3 show ?thesis
    by (simp add: write_signal_str py_or_object)
qed

theorem last_write_wins_witness:
  "read_signal demo_lib (JString ''Profile 1'')
       \<lparr>files = [''Profile 1'' \<mapsto> demo_dumps (JObject [])],
        clock = 0, spawned = [], threads = [], outbox = []\<rparr>
     = Returns (JObject [])
       \<lparr>files = Map.empty(''Profile 1'' := None), clock = 0, spawned = [], threads = [], outbox = []\<rparr>
   \<and> write_signal demo_lib (JString ''Profile 1'') (JObject [])
       \<lparr>files = [''Profile 1'' \<mapsto> demo_dumps (JObject [(''url'', JString ''https://example.org/'')])],
        clock = 0, spawned = [], threads = [], outbox = []\<rparr>
     = write_signal demo_lib (JString ''Profile 1'') (JObject [])
       \<lparr>files = Map.empty, clock = 0, spawned = [], threads = [], outbox = []\<rparr>"
proof -
  have h1: "utf8_valid (dumps demo_lib (JObject []))"
    by (simp add: demo_lib_def demo_dumps_def byte_in_def)
  have h2: "loads demo_lib (dumps demo_lib (JObject [])) = Inr (JObject [])"
    by (simp add: demo_lib_def demo_dumps_def demo_loads_def)
  show ?thesis
    using last_write_wins [OF h1 h2, of "''Profile 1''"
        "JObject [(''url'', JString ''https://example.org/'')]"
        "\<lparr>files = Map.empty, clock = 0, spawned = [], threads = [], outbox = []\<rparr>"]
    by (simp add: demo_lib_def py_or_def)
qed

section \<open>Waiting for consumption: proofs\<close>

lemma clock_sleep [simp]: "clock (sleep E d w) = clock w + d + lag E (clock w)"
  by (simp add: sleep_def)

lemma files_sleep: "files (sleep E d w) = files_at E w (clock (sleep E d w))"
  by (simp add: sleep_def)

lemma sleep_keeps [simp]:
  "spawned (sleep E d w) = spawned w" "threads (sleep E d w) = threads w"
  "outbox (sleep E d w) = outbox w"
  by (simp_all add: sleep_def)

lemma files_at_now [simp]: "files_at E w (clock w) = files w"
  by (simp add: files_at_def)

lemma files_at_sleep:
  assumes "clock (sleep E d w) \<le> t"
  shows "files_at E (sleep E d w) t = files_at E w t"
proof -
  let ?c = "clock w" and ?c' = "clock (sleep E d w)"
  have "?c \<le> ?c'" by simp
  with assms have "[?c..<t] = [?c..<?c'] @ [?c'..<t]"
    by (metis le_Suc_ex upt_add_eq_append)
  then show ?thesis
    by (simp add: files_at_def files_sleep)
qed

lemma polls_Suc: "polls E w (Suc k) = polls E (sleep E 100 w) k"
  by (simp add: polls_def funpow_swap1)

lemma clock_polls_mono: "clock w \<le> clock (polls E w k)"
proof (induction k arbitrary: w)
  case 0
  show ?case by (simp add: polls_def)
next
  case (Suc k)
  have "clock w \<le> clock (sleep E 100 w)" by simp
  also have "\<dots> \<le> clock (polls E (sleep E 100 w) k)" by (rule Suc.IH)
  finally show ?case by (simp add: polls_Suc)
qed

lemma files_polls: "files (polls E w k) = files_at E w (clock (polls E w k))"
proof (induction k arbitrary: w)
  case 0
  show ?case by (simp add: polls_def)
next
  case (Suc k)
  have "files (polls E (sleep E 100 w) k)
          = files_at E (sleep E 100 w) (clock (polls E (sleep E 100 w) k))"
    by (rule Suc.IH)
  also have "\<dots> = files_at E w (clock (polls E (sleep E 100 w) k))"
    by (rule files_at_sleep) (rule clock_polls_mono)
  finally show ?case by (simp add: polls_Suc)
qed

text \<open>
  The loop reports the first poll, taken while the clock is before the deadline, that
  finds the file missing.
\<close>

lemma wait_loop_polls:
  "fst (wait_loop E p deadline w)
     \<longleftrightarrow> (\<exists>k. clock (polls E w k) < deadline \<and> files (polls E w k) p = None)"
proof (induction E p deadline w rule: wait_loop.induct)
  case (1 E p deadline w)
  show ?case
  proof (cases "clock w < deadline")
    case False
    then have "\<And>k. \<not> clock (polls E w k) < deadline"
      using clock_polls_mono [of w E] by (simp add: not_less order_trans)
    with False show ?thesis
      by (simp add: wait_loop.simps [of E p deadline w])
  next
    case before: True
    show ?thesis
    proof (cases "files w p = None")
      case True
      with before have "clock (polls E w 0) < deadline \<and> files (polls E w 0) p = None"
        by (simp add: polls_def)
      then have "\<exists>k. clock (polls E w k) < deadline \<and> files (polls E w k) p = None" ..
      with before True show ?thesis
        by (simp add: wait_loop.simps [of E p deadline w])
    next
      case False
      have "(\<exists>k. clock (polls E w k) < deadline \<and> files (polls E w k) p = None)
              \<longleftrightarrow> (\<exists>k. clock (polls E w (Suc k)) < deadline \<and> files (polls E w (Suc k)) p = None)"
        (is "?L \<longleftrightarrow> ?R")
      proof
        assume ?L
        then obtain k where k: "clock (polls E w k) < deadline \<and> files (polls E w k) p = None" ..
        have "k \<noteq> 0"
        proof
          assume "k = 0"
          with k False show False by (simp add: polls_def)
        qed
        then obtain j where "k = Suc j" by (cases k) auto
        with k show ?R by blast
      next
        assume ?R
        then show ?L by blast
      qed
      moreover have "fst (wait_loop E p deadline w) = fst (wait_loop E p deadline (sleep E 100 w))"
        using before False by (subst wait_loop.simps) auto
      ultimately show ?thesis
        using "1.IH" [OF before False] by (simp add: polls_Suc)
    qed
  qed
qed

lemma wait_loop_slot_gone: "files (snd (wait_loop E p deadline w)) p = None"
proof (induction E p deadline w rule: wait_loop.induct)
  case (1 E p deadline w)
  then show ?case
    by (simp add: wait_loop.simps [of E p deadline w] unlink_def)
qed

lemma wait_loop_keeps:
  "spawned (snd (wait_loop E p deadline w)) = spawned w
   \<and> threads (snd (wait_loop E p deadline w)) = threads w
   \<and> outbox (snd (wait_loop E p deadline w)) = outbox w"
proof (induction E p deadline w rule: wait_loop.induct)
  case (1 E p deadline w)
  then show ?case
    by (simp add: wait_loop.simps [of E p deadline w] unlink_def)
qed

lemma wait_for_signal_consumed_str:
  "wait_for_signal_consumed E (JString p) timeout w
     = Returns (fst (wait_loop E p (clock w + timeout) w)) (snd (wait_loop E p (clock w + timeout) w))"
  by (simp add: wait_for_signal_consumed_def signal_path_def split: prod.split)

text \<open>What the other processes do to one file over a stretch of time in \<open>taken_at\<close>.\<close>

lemma fold_taken_at:
  "fold (acts (taken_at p t)) [a..<b] fs p = (if a \<le> t \<and> t < b then None else fs p)"
proof (induction b)
  case 0
  show ?case by simp
next
  case (Suc b)
  show ?case
  proof (cases "a \<le> b")
    case True
    with Suc show ?thesis by (auto simp: taken_at_def)
  next
    case False
    then show ?thesis by auto
  qed
qed

lemma lag_taken_at [simp]: "lag (taken_at p t) c = 0"
  by (simp add: taken_at_def)


lemma clock_polls_taken_at: "clock (polls (taken_at p t) w k) = clock w + 100 * k"
proof (induction k arbitrary: w)
  case 0
  show ?case by (simp add: polls_def)
next
  case (Suc k)
  show ?case by (simp add: polls_Suc Suc.IH)
qed

lemma files_polls_taken_at:
  "files (polls (taken_at p t) w k) p
     = (if clock w \<le> t \<and> t < clock w + 100 * k then None else files w p)"
  unfolding files_polls files_at_def fold_taken_at clock_polls_taken_at ..

text \<open>
  C2, as stated, fails. The slot of \<open>Profile 1\<close> is occupied, and its watcher takes it
  1950 ms after the call, before the 2000 ms have elapsed: the slot has ceased to exist
  at 1951 ms. The polls at 0, 100, ..., 1900 ms find the file; the next reading of the
  clock is 2000, which ends the loop without a look at the file, and the call returns
  failure.
\<close>

theorem wait_for_signal_consumed_counterexample:
  "returned (wait_for_signal_consumed (taken_at ''Profile 1'' 1950) (JString ''Profile 1'') 2000
       (start_world\<lparr>files := [''Profile 1'' \<mapsto> ''{}'']\<rparr>)) = Some False
   \<and> files_at (taken_at ''Profile 1'' 1950)
        (start_world\<lparr>files := [''Profile 1'' \<mapsto> ''{}'']\<rparr>) 1951 ''Profile 1'' = None
   \<and> (1951 :: nat) < clock (start_world\<lparr>files := [''Profile 1'' \<mapsto> ''{}'']\<rparr>) + 2000"
proof -
  let ?w = "start_world\<lparr>files := [''Profile 1'' \<mapsto> ''{}'']\<rparr>"
  have c: "clock ?w = 0" and f: "files ?w ''Profile 1'' = Some ''{}''"
    by (simp_all add: start_world_def)
  have "\<not> (100 * k < 2000 \<and> 1950 < 100 * k)" for k :: nat
    by arith
  then have "fst (wait_loop (taken_at ''Profile 1'' 1950) ''Profile 1'' 2000 ?w) = False"
    by (simp add: wait_loop_polls clock_polls_taken_at files_polls_taken_at c f)
  moreover have "files_at (taken_at ''Profile 1'' 1950) ?w 1951 ''Profile 1'' = None"
    by (simp add: files_at_def fold_taken_at c)
  ultimately show ?thesis
    by (simp add: wait_for_signal_consumed_str c)
qed

text \<open>
  C2, amended. \<open>wait_for_signal_consumed(p, t)\<close> always returns. It looks at the slot
  when it is called and again after each sleep of 100 ms (or longer, when the sleep
  overruns), as long as the clock then reads less than \<open>t\<close> after the call; it returns
  success if and only if one of these polls finds the slot missing. Success implies that
  the slot did not exist at some moment before \<open>t\<close> elapsed. On return, with failure as
  with success, the slot of \<open>p\<close> does not exist, whatever it held before.
\<close>

theorem wait_for_signal_consumed_polls:
  "\<exists>consumed w'.
     wait_for_signal_consumed E (JString p) timeout w = Returns consumed w'
     \<and> (consumed \<longleftrightarrow>
          (\<exists>k. clock (polls E w k) < clock w + timeout
               \<and> files_at E w (clock (polls E w k)) p = None))
     \<and> (consumed \<longrightarrow>
          (\<exists>t. clock w \<le> t \<and> t < clock w + timeout \<and> files_at E w t p = None))
     \<and> files w' p = None
     \<and> clock (polls E w 0) = clock w
     \<and> clock (polls E w (Suc k)) = clock (polls E w k) + 100 + lag E (clock (polls E w k))"
proof -
  let ?r = "wait_loop E p (clock w + timeout) w"
  have 1: "wait_for_signal_consumed E (JString p) timeout w = Returns (fst ?r) (snd ?r)"
    by (rule wait_for_signal_consumed_str)
  have 2: "fst ?r \<longleftrightarrow>
      (\<exists>k. clock (polls E w k) < clock w + timeout \<and> files_at E w (clock (polls E w k)) p = None)"
    by (simp add: wait_loop_polls files_polls)
  have 3: "fst ?r \<longrightarrow> (\<exists>t. clock w \<le> t \<and> t < clock w + timeout \<and> files_at E w t p = None)"
    unfolding 2 using clock_polls_mono [of w E] by blast
  have 4: "files (snd ?r) p = None"
    by (rule wait_loop_slot_gone)
  have 5: "clock (polls E w 0) = clock w"
    "clock (polls E w (Suc k)) = clock (polls E w k) + 100 + lag E (clock (polls E w k))"
    by (simp_all add: polls_def)
  from 1 2 3 4 5 show ?thesis by blast
qed

theorem wait_for_signal_consumed_polls_witness:
  "returned (wait_for_signal_consumed (taken_at ''Profile 1'' 50) (JString ''Profile 1'') 2000
       (start_world\<lparr>files := [''Profile 1'' \<mapsto> ''{}'']\<rparr>)) = Some True"
proof -
  let ?E = "taken_at ''Profile 1'' 50"
  let ?w = "start_world\<lparr>files := [''Profile 1'' \<mapsto> ''{}'']\<rparr>"
  obtain consumed w' where
    r: "wait_for_signal_consumed ?E (JString ''Profile 1'') 2000 ?w = Returns consumed w'" and
    c: "consumed \<longleftrightarrow> (\<exists>k. clock (polls ?E ?w k) < clock ?w + 2000
               \<and> files_at ?E ?w (clock (polls ?E ?w k)) ''Profile 1'' = None)"
    using wait_for_signal_consumed_polls [of ?E "''Profile 1''" 2000 ?w] by blast
  have w: "clock ?w = 0"
    by (simp add: start_world_def)
  have "polls ?E ?w 1 = sleep ?E 100 ?w"
    by (simp add: polls_def)
  then have k: "clock (polls ?E ?w 1) = 100"
    by (simp add: w)
  have "files_at ?E ?w 100 ''Profile 1'' = None"
    unfolding files_at_def fold_taken_at w by simp
  then have "clock (polls ?E ?w 1) < clock ?w + 2000
          \<and> files_at ?E ?w (clock (polls ?E ?w 1)) ''Profile 1'' = None"
    unfolding k w by simp
  then have "\<exists>k. clock (polls ?E ?w k) < clock ?w + 2000
               \<and> files_at ?E ?w (clock (polls ?E ?w k)) ''Profile 1'' = None"
    by (rule exI [of _ 1])
  with c have consumed by blast
  with r show ?thesis by simp
qed

section \<open>The watcher: proofs\<close>




section \<open>Switching profiles: proofs\<close>





lemma py_get_object: "py_get (JObject kvs) k = Inr (case map_of kvs k of None \<Rightarrow> JNull | Some v \<Rightarrow> v)"
  by (simp add: py_get_def py_get_default_def split: option.split)









section \<open>The dispatch loop: proofs\<close>

lemma activate_chrome_keeps [simp]:
  "threads (activate_chrome w) = threads w" "outbox (activate_chrome w) = outbox w"
  "files (activate_chrome w) = files w" "clock (activate_chrome w) = clock w"
  by (simp_all add: activate_chrome_def)

lemma send_message_keeps [simp]:
  "threads (send_message m w) = threads w" "outbox (send_message m w) = outbox w @ [m]"
  by (simp_all add: send_message_def)

lemma wait_loop_threads [simp]: "threads (snd (wait_loop E p deadline w)) = threads w"
  and wait_loop_outbox [simp]: "outbox (snd (wait_loop E p deadline w)) = outbox w"
  using wait_loop_keeps [of E p deadline w] by simp_all

text \<open>What \<open>switch_profile\<close> and \<open>open_url_in_profile\<close> return and keep.\<close>

lemma switch_result_no_id:
  "switch_result r \<Longrightarrow> \<exists>kvs. r = JObject kvs \<and> ''id'' \<notin> fst ` set kvs"
  by (auto simp: switch_result_def signal_result_def launch_result_def launch_error_def)

lemma switch_profile_effect:
  "threads (world_of (switch_profile J E profile_dir w)) = threads w
   \<and> outbox (world_of (switch_profile J E profile_dir w)) = outbox w
   \<and> (\<forall>r. returned (switch_profile J E profile_dir w) = Some r \<longrightarrow> switch_result r)"
proof (cases profile_dir)
  case (JString p)
  then show ?thesis
    by (auto simp: switch_profile_def write_signal_str wait_for_signal_consumed_str
        signal_path_def popen_def switch_result_def split: option.split)
qed (simp_all add: switch_profile_def write_signal_def signal_path_def)

lemma open_url_in_profile_effect:
  "threads (world_of (open_url_in_profile J E profile_dir url w)) = threads w
   \<and> outbox (world_of (open_url_in_profile J E profile_dir url w)) = outbox w
   \<and> (\<forall>r. returned (open_url_in_profile J E profile_dir url w) = Some r \<longrightarrow> switch_result r)"
proof (cases profile_dir)
  case (JString p)
  then show ?thesis
    by (cases url)
      (auto simp: open_url_in_profile_def write_signal_str wait_for_signal_consumed_str
        signal_path_def popen_def switch_result_def split: option.split)
qed (simp_all add: open_url_in_profile_def write_signal_def signal_path_def)

lemma get_profiles_no_id:
  "get_profiles J E email = Inr r \<Longrightarrow> \<exists>kvs. r = JObject kvs \<and> ''id'' \<notin> fst ` set kvs"
  unfolding get_profiles_def
  by (auto simp: error_result_def split: sum.splits if_splits json.splits prod.splits)

lemma world_of_map:
  "world_of (case r of Returns x w' \<Rightarrow> Returns (f x) w' | Raises e w' \<Rightarrow> Raises e w') = world_of r"
  by (cases r) simp_all

lemma returned_map:
  "returned (case r of Returns x w' \<Rightarrow> Returns (f x) w' | Raises e w' \<Rightarrow> Raises e w')
     = map_option f (returned r)"
  by (cases r) simp_all

text \<open>The branch on the action, for a message that is an object.\<close>

lemma dispatch_register:
  assumes "action_of kvs = JString ''register''"
  shows "dispatch J E started (JString ''register'') (JObject kvs) w =
           (case registers (JObject kvs) of
              Some pd \<Rightarrow> if started then Returns (started, success_result) w
                         else Returns (True, success_result) (w\<lparr>threads := threads w @ [pd]\<rparr>)
            | None \<Rightarrow> Returns (started, success_result) w)"
proof -
  from assms have a: "map_of kvs ''action'' = Some (JString ''register'')"
    by (auto simp: action_of_def split: option.splits)
  show ?thesis
    unfolding dispatch_def
    by (auto simp: py_get_object registers_def a split: option.split)
qed

lemma dispatch_not_register:
  assumes "action_of kvs \<noteq> JString ''register''"
  shows "registers (JObject kvs) = None"
  using assms by (auto simp: action_of_def registers_def split: option.splits)

lemma dispatch_threads:
  "threads (world_of (dispatch J E started (action_of kvs) (JObject kvs) w))
     = (case registers (JObject kvs) of
          Some pd \<Rightarrow> if started then threads w else threads w @ [pd]
        | None \<Rightarrow> threads w)"
proof (cases "action_of kvs = JString ''register''")
  case True
  then show ?thesis
    by (simp add: dispatch_register split: option.split)
next
  case False
  then have "threads (world_of (dispatch J E started (action_of kvs) (JObject kvs) w)) = threads w"
    using switch_profile_effect open_url_in_profile_effect
    by (simp add: dispatch_def py_get_object world_of_map split: sum.split)
  with False show ?thesis
    by (simp add: dispatch_not_register)
qed

lemma dispatch_outbox:
  "outbox (world_of (dispatch J E started (action_of kvs) (JObject kvs) w)) = outbox w"
proof (cases "action_of kvs = JString ''register''")
  case True
  then show ?thesis
    by (simp add: dispatch_register split: option.split)
next
  case False
  then show ?thesis
    using switch_profile_effect open_url_in_profile_effect
    by (simp add: dispatch_def py_get_object world_of_map split: sum.split)
qed

lemma dispatch_result:
  assumes "returned (dispatch J E started (action_of kvs) (JObject kvs) w) = Some (st, res)"
  shows "(\<exists>items. res = JObject items \<and> ''id'' \<notin> fst ` set items)
         \<and> st = (started \<or> registers (JObject kvs) \<noteq> None)"
proof (cases "action_of kvs = JString ''register''")
  case True
  from assms have "returned
      (case registers (JObject kvs) of
         Some pd \<Rightarrow> if started then Returns (started, success_result) w
                    else Returns (True, success_result) (w\<lparr>threads := threads w @ [pd]\<rparr>)
       | None \<Rightarrow> Returns (started, success_result) w) = Some (st, res)"
    by (simp only: True dispatch_register [OF True])
  then show ?thesis
    by (auto simp: success_result_def split: option.splits if_splits)
next
  case False
  note nr = dispatch_not_register [OF False]
  consider (g) "action_of kvs = JString ''get-profiles''"
    | (s) "action_of kvs = JString ''switch-profile''"
    | (o) "action_of kvs = JString ''open-url-in-profile''"
    | (u) "action_of kvs \<noteq> JString ''get-profiles''" "action_of kvs \<noteq> JString ''switch-profile''"
          "action_of kvs \<noteq> JString ''open-url-in-profile''"
    by blast
  then show ?thesis
  proof cases
    case g
    with assms show ?thesis
      by (auto simp: dispatch_def py_get_object nr split: sum.splits dest: get_profiles_no_id)
  next
    case s
    with assms obtain pd where
      "returned (switch_profile J E pd w) = Some res" and "st = started"
      by (auto simp: dispatch_def py_get_object returned_map)
    with switch_profile_effect [of J E pd w] show ?thesis
      by (auto simp: nr dest: switch_result_no_id)
  next
    case o
    with assms obtain pd url where
      "returned (open_url_in_profile J E pd url w) = Some res" and "st = started"
      by (auto simp: dispatch_def py_get_object returned_map)
    with open_url_in_profile_effect [of J E pd url w] show ?thesis
      by (auto simp: nr dest: switch_result_no_id)
  next
    case u
    with assms False show ?thesis
      by (auto simp: dispatch_def error_result_def nr)
  qed
qed

lemma main_step_not_object:
  "\<forall>kvs. msg \<noteq> JObject kvs \<Longrightarrow> main_step J E started msg w = Raises AttributeError w"
  by (cases msg) (simp_all add: main_step_def py_get_def py_get_default_def)

lemma main_step_object:
  "main_step J E started (JObject kvs) w =
     (case dispatch J E started (action_of kvs) (JObject kvs) w of
        Raises e w' \<Rightarrow> Raises e w'
      | Returns (st, result) w' \<Rightarrow>
          (case result of
             JObject items \<Rightarrow>
               Returns st
                 (send_message
                    (if msg_id_of kvs \<noteq> JNull
                     then JObject (dict_set items ''id'' (msg_id_of kvs)) else result) w')
           | _ \<Rightarrow> Raises TypeError w'))"
proof -
  have a: "py_get (JObject kvs) ''action'' = Inr (action_of kvs)"
    and i: "py_get (JObject kvs) ''id'' = Inr (msg_id_of kvs)"
    by (simp_all add: py_get_object action_of_def msg_id_of_def)
  show ?thesis
    unfolding main_step_def a i by simp
qed

lemma main_step_sends:
  assumes "dispatch J E started (action_of kvs) (JObject kvs) w = Returns (st, res) w1"
  shows "\<exists>items. res = JObject items \<and> ''id'' \<notin> fst ` set items
           \<and> st = (started \<or> registers (JObject kvs) \<noteq> None)
           \<and> main_step J E started (JObject kvs) w
               = Returns st (send_message
                   (if msg_id_of kvs \<noteq> JNull
                    then JObject (dict_set items ''id'' (msg_id_of kvs)) else res) w1)"
proof -
  from assms have "returned (dispatch J E started (action_of kvs) (JObject kvs) w) = Some (st, res)"
    by simp
  from dispatch_result [OF this] obtain items where
    i: "res = JObject items" "''id'' \<notin> fst ` set items"
       "st = (started \<or> registers (JObject kvs) \<noteq> None)"
    by blast
  with assms have "main_step J E started (JObject kvs) w
      = Returns st (send_message
          (if msg_id_of kvs \<noteq> JNull
           then JObject (dict_set items ''id'' (msg_id_of kvs)) else res) w1)"
    by (simp add: main_step_object)
  with i show ?thesis by blast
qed

lemma main_step_threads:
  "threads (world_of (main_step J E started msg w))
     = (case registers msg of
          Some pd \<Rightarrow> if started then threads w else threads w @ [pd]
        | None \<Rightarrow> threads w)"
proof (cases "\<exists>kvs. msg = JObject kvs")
  case False
  then have "main_step J E started msg w = Raises AttributeError w"
    by (intro main_step_not_object) blast
  moreover from False have "registers msg = None"
    by (cases msg) (simp_all add: registers_def)
  ultimately show ?thesis by simp
next
  case True
  then obtain kvs where msg: "msg = JObject kvs" ..
  let ?d = "dispatch J E started (action_of kvs) (JObject kvs) w"
  have "threads (world_of (main_step J E started (JObject kvs) w)) = threads (world_of ?d)"
  proof (cases ?d)
    case (Raises e w1)
    then show ?thesis by (simp add: main_step_object)
  next
    case (Returns x w1)
    obtain st res where "x = (st, res)" by (cases x)
    with Returns main_step_sends [of J E started kvs w st res w1] show ?thesis
      by auto
  qed
  then show ?thesis
    unfolding msg by (simp only: dispatch_threads)
qed

lemma dict_set_same: "map_of (dict_set items k v) k = Some v"
  by (induction items) auto

lemma main_step_outbox:
  assumes "main_step J E started msg w = Returns st w'"
  shows "\<exists>kvs items. msg = JObject kvs
           \<and> outbox w' = outbox w @ [JObject items]
           \<and> (if msg_id_of kvs \<noteq> JNull then map_of items ''id'' = Some (msg_id_of kvs)
               else ''id'' \<notin> fst ` set items)
           \<and> st = (started \<or> registers msg \<noteq> None)"
proof -
  from assms obtain kvs where msg: "msg = JObject kvs"
    using main_step_not_object [of msg J E started w] by fastforce
  let ?d = "dispatch J E started (action_of kvs) (JObject kvs) w"
  from assms msg obtain r res w1 where d: "?d = Returns (r, res) w1"
    by (cases ?d) (auto simp: main_step_object)
  from main_step_sends [OF d] assms msg obtain items where
    i: "res = JObject items" "''id'' \<notin> fst ` set items" "st = (started \<or> registers msg \<noteq> None)"
    and w': "w' = send_message
          (if msg_id_of kvs \<noteq> JNull
           then JObject (dict_set items ''id'' (msg_id_of kvs)) else res) w1"
    by auto
  have o: "outbox w1 = outbox w"
    using dispatch_outbox [of J E started kvs w] d by simp
  from i w' o msg show ?thesis
    by (cases "msg_id_of kvs = JNull") (simp_all add: dict_set_same)
qed

lemma main_loop_started:
  "threads (world_of (main_loop J E True msgs w)) = threads w"
proof (induction msgs arbitrary: w)
  case Nil
  show ?case by simp
next
  case (Cons msg msgs)
  have t: "threads (world_of (main_step J E True msg w)) = threads w"
    by (simp add: main_step_threads split: option.split)
  show ?case
  proof (cases "main_step J E True msg w")
    case (Raises e w')
    with t show ?thesis by simp
  next
    case (Returns st w')
    with main_step_outbox [OF Returns] have "st = True" by auto
    with Returns t Cons.IH [of w'] show ?thesis by simp
  qed
qed

lemma main_loop_fresh:
  "(threads (world_of (main_loop J E False msgs w)) = threads w
      \<or> (\<exists>pd. first_registered msgs = Some pd
            \<and> threads (world_of (main_loop J E False msgs w)) = threads w @ [pd]))
   \<and> (returned (main_loop J E False msgs w) \<noteq> None \<longrightarrow>
        threads (world_of (main_loop J E False msgs w))
          = threads w @ (case first_registered msgs of None \<Rightarrow> [] | Some pd \<Rightarrow> [pd]))"
proof (induction msgs arbitrary: w)
  case Nil
  show ?case by simp
next
  case (Cons msg msgs)
  note t = main_step_threads [of J E False msg w]
  show ?case
  proof (cases "main_step J E False msg w")
    case (Raises e w')
    with t show ?thesis by (auto split: option.splits)
  next
    case (Returns st w')
    from main_step_outbox [OF Returns] have st: "st = (registers msg \<noteq> None)" by auto
    show ?thesis
    proof (cases "registers msg")
      case None
      with Returns st t have "main_loop J E False (msg # msgs) w = main_loop J E False msgs w'"
        and "threads w' = threads w"
        by simp_all
      with None Cons.IH [of w'] show ?thesis by simp
    next
      case (Some pd)
      with Returns st t have "main_loop J E False (msg # msgs) w = main_loop J E True msgs w'"
        and "threads w' = threads w @ [pd]"
        by simp_all
      with Some main_loop_started [of J E msgs w'] show ?thesis by simp
    qed
  qed
qed

lemma register_step:
  assumes "action_of kvs = JString ''register''"
  shows "\<exists>w'. main_step J E started (JObject kvs) v
                 = Returns (started \<or> registers (JObject kvs) \<noteq> None) w'
           \<and> outbox w' = outbox v @
                [if msg_id_of kvs \<noteq> JNull
                 then JObject [(''success'', JBool True), (''id'', msg_id_of kvs)]
                 else JObject [(''success'', JBool True)]]
           \<and> threads w' = (case registers (JObject kvs) of
                             Some pd \<Rightarrow> if started then threads v else threads v @ [pd]
                           | None \<Rightarrow> threads v)"
  unfolding main_step_object assms dispatch_register [OF assms]
  by (simp add: success_result_def split: option.split)

text \<open>
  C7. For every sequence of requests that one process handles, started with no watcher:
  at most one watcher thread is ever started; if one is, it watches the identifier of
  the first \<open>register\<close> request that carries a (truthy) identifier, and when the loop
  reaches the end of the requests exactly that one thread has been started, if any
  request registered at all. Every \<open>register\<close> request is answered with
  \<open>success: true\<close> (and its id), and it starts a thread only if it carries an identifier
  and no thread was started before.
\<close>

theorem one_watcher_per_process:
  assumes "threads w = []"
  shows "length (threads (world_of (main J E msgs w))) \<le> 1
         \<and> (threads (world_of (main J E msgs w)) = []
              \<or> (\<exists>pd. first_registered msgs = Some pd
                    \<and> threads (world_of (main J E msgs w)) = [pd]))
         \<and> (returned (main J E msgs w) \<noteq> None \<longrightarrow>
              threads (world_of (main J E msgs w))
                = (case first_registered msgs of None \<Rightarrow> [] | Some pd \<Rightarrow> [pd]))
         \<and> (action_of kvs = JString ''register'' \<longrightarrow>
              (\<exists>w'. main_step J E started (JObject kvs) v
                       = Returns (started \<or> registers (JObject kvs) \<noteq> None) w'
                 \<and> outbox w' = outbox v @
                      [if msg_id_of kvs \<noteq> JNull
                       then JObject [(''success'', JBool True), (''id'', msg_id_of kvs)]
                       else JObject [(''success'', JBool True)]]
                 \<and> threads w' = (case registers (JObject kvs) of
                                   Some pd \<Rightarrow> if started then threads v else threads v @ [pd]
                                 | None \<Rightarrow> threads v)))"
proof -
  note f = main_loop_fresh [of J E msgs w, unfolded assms, simplified, folded main_def]
  from f have 1: "length (threads (world_of (main J E msgs w))) \<le> 1"
    by auto
  from f register_step [of kvs J E started v] 1 show ?thesis
    by blast
qed

theorem one_watcher_per_process_witness:
  "threads (world_of (main demo_lib (taken_at ''Profile 1'' 0)
      [JObject [(''action'', JString ''register''), (''profileDir'', JString ''Profile 1'')],
       JObject [(''action'', JString ''register''), (''profileDir'', JString ''Profile 2''),
                (''id'', JInt 2)]]
      start_world))
     = [JString ''Profile 1'']"
proof -
  let ?msgs = "[JObject [(''action'', JString ''register''), (''profileDir'', JString ''Profile 1'')],
       JObject [(''action'', JString ''register''), (''profileDir'', JString ''Profile 2''),
                (''id'', JInt 2)]]"
  have h: "threads start_world = []"
    by (simp add: start_world_def)
  have r: "returned (main demo_lib (taken_at ''Profile 1'' 0) ?msgs start_world) \<noteq> None"
    by (simp add: main_def main_step_object action_of_def msg_id_of_def dispatch_def py_get_object
        success_result_def)
  have f: "first_registered ?msgs = Some (JString ''Profile 1'')"
    by (simp add: registers_def)
  from one_watcher_per_process [OF h, of demo_lib "taken_at ''Profile 1'' 0" ?msgs "[]" False start_world] r
  have "threads (world_of (main demo_lib (taken_at ''Profile 1'' 0) ?msgs start_world))
          = (case first_registered ?msgs of None \<Rightarrow> [] | Some pd \<Rightarrow> [pd])"
    by blast
  with f show ?thesis by simp
qed





end
